theory Spec2Isabelle
  imports Main
begin

section \<open>The order ledger of the event marketplace: data model\<close>

text \<open>
  The development follows \<^verbatim>\<open>apps/orders/models.py\<close>, \<^verbatim>\<open>apps/orders/serializers.py\<close>,
  \<^verbatim>\<open>apps/orders/utils.py\<close> and \<^verbatim>\<open>apps/orders/views.py\<close>.

  Amounts are \<^verbatim>\<open>DecimalField(max_digits=10, decimal_places=2)\<close> values. They are
  modelled as integers counting hundredths, on which the comparisons, additions and
  subtractions of \<^verbatim>\<open>Decimal\<close> are exact. A date is the ordinal number of its day.
  Users, events and orders are referred to by their primary keys; Django compares
  model instances by primary key, so \<^verbatim>\<open>order.buyer != request.user\<close> is a comparison
  of identifiers.
\<close>

type_synonym money = int
type_synonym date = nat
type_synonym pk = string

datatype status = Pending | Accepted | Completed | Cancelled

text \<open>
  A line of \<^verbatim>\<open>selected_services\<close> stores its price as
  \<^verbatim>\<open>float(service_detail.price)\<close>. The conversion of a decimal of at most ten digits
  to a double is injective, so such a float is represented by the decimal it was
  converted from; it is a value of its own type, and no arithmetic on it is modelled.
\<close>

datatype pyfloat = PyFloat money

record service_line =
  line_id :: pk
  line_name :: string
  line_price :: pyfloat

record service_order =
  seller :: pk
  buyer :: pk
  event :: pk
  buyer_name :: string
  event_date :: date
  event_time :: nat
  location :: string
  selected_services :: "service_line list"
  seller_agreed :: bool
  status :: status
  total_amount :: money
  discount_price :: money
  advance_paid :: money
  is_fully_paid :: bool
  full_payment_date :: "date option"
  invoice_file :: "string option"

section \<open>The model's methods (\<^verbatim>\<open>ServiceOrder\<close>)\<close>

text \<open>Python's \<^verbatim>\<open>x or Decimal('0.00')\<close> on a decimal: a zero is falsy and is replaced.\<close>

definition or_zero :: "money \<Rightarrow> money" where
  "or_zero x = (if x = 0 then 0 else x)"

text \<open>\<^verbatim>\<open>if not self.full_payment_date: self.full_payment_date = today\<close>; a date object is
  always truthy, so only \<^verbatim>\<open>None\<close> is replaced.\<close>

definition stamp_if_unset :: "date \<Rightarrow> service_order \<Rightarrow> service_order" where
  "stamp_if_unset today od =
     (case full_payment_date od of
        None \<Rightarrow> od\<lparr>full_payment_date := Some today\<rparr>
      | Some d \<Rightarrow> od)"

text \<open>\<^verbatim>\<open>ServiceOrder.accept(by_seller)\<close>.\<close>

definition accept :: "service_order \<Rightarrow> bool \<Rightarrow> service_order" where
  "accept od by_seller =
     (if by_seller then od\<lparr>seller_agreed := True, status := Accepted\<rparr> else od)"

text \<open>\<^verbatim>\<open>ServiceOrder.apply_seller_update(discount_price=None, advance_paid=None)\<close>;
  \<open>today\<close> is \<^verbatim>\<open>timezone.now().date()\<close>.\<close>

definition apply_seller_update ::
  "service_order \<Rightarrow> money option \<Rightarrow> money option \<Rightarrow> date \<Rightarrow> service_order" where
  "apply_seller_update od discount_arg advance_arg today =
     (let d0 = (case discount_arg of None \<Rightarrow> or_zero (discount_price od) | Some d \<Rightarrow> d);
          a0 = (case advance_arg of None \<Rightarrow> or_zero (advance_paid od) | Some a \<Rightarrow> a);
          d1 = (if d0 < 0 then 0 else d0);
          a1 = (if a0 < 0 then 0 else a0);
          d2 = (if d1 > total_amount od then total_amount od else d1);
          od1 = od\<lparr>discount_price := d2, advance_paid := a1\<rparr>;
          net0 = total_amount od1 - discount_price od1;
          net_total = (if net0 < 0 then 0 else net0)
      in if advance_paid od1 \<ge> net_total \<and> net_total > 0 then
           stamp_if_unset today (od1\<lparr>is_fully_paid := True\<rparr>)
         else if net_total = 0 then
           stamp_if_unset today (od1\<lparr>is_fully_paid := True\<rparr>)
         else od1\<lparr>is_fully_paid := False\<rparr>)"

text \<open>The property \<^verbatim>\<open>ServiceOrder.remaining_amount\<close>.\<close>

definition remaining_amount :: "service_order \<Rightarrow> money" where
  "remaining_amount od =
     (let rem = total_amount od - or_zero (discount_price od) - or_zero (advance_paid od)
      in if rem > 0 then rem else 0)"

text \<open>\<^verbatim>\<open>ServiceOrderSerializer.get_net_total\<close>: the net total as it is read.\<close>

definition get_net_total :: "service_order \<Rightarrow> money" where
  "get_net_total od =
     (let total = or_zero (total_amount od);
          discount = or_zero (discount_price od)
      in total - discount)"

section \<open>Users, catalogue and the stored tables\<close>

datatype error =
    NotFoundError
  | ForbiddenError
  | ValidationError
  | InvalidStatusUpdate
  | MultipleObjectsReturned
  | TypeError

text \<open>
  \<open>NotFoundError\<close> is \<^verbatim>\<open>Http404\<close>, \<open>ForbiddenError\<close> is \<^verbatim>\<open>permission_denied\<close> or a
  response with status 403, \<open>ValidationError\<close> is raised by a serializer,
  \<open>InvalidStatusUpdate\<close> is the response with status 400 of the buyer's update, and
  \<open>MultipleObjectsReturned\<close> is the exception of \<^verbatim>\<open>objects.get\<close> that no handler of
  the views catches. \<open>TypeError\<close> is Python's, for an ordering comparison with \<^verbatim>\<open>None\<close>.

  A user carries the slug that \<^verbatim>\<open>User.get_profile_slug\<close> computes from the first and
  the last name with Django's \<^verbatim>\<open>slugify\<close>.
\<close>

record user =
  uid :: pk
  user_type :: string
  profile_slug :: string
  full_name :: string

record event_row =
  event_seller :: pk

text \<open>An \<^verbatim>\<open>EventServiceDetail\<close> row joined with its \<^verbatim>\<open>EventService\<close>.\<close>

record event_service_detail =
  detail_event :: pk
  service_id :: pk
  service_type :: string
  price :: money
  is_available :: bool

record db =
  users :: "user list"
  events :: "pk \<rightharpoonup> event_row"
  service_details :: "event_service_detail list"
  orders :: "pk \<rightharpoonup> service_order"

text \<open>\<^verbatim>\<open>get_user_by_slug_or_404(slug, role)\<close>: the first user of the role whose slug
  matches, in the order of the query.\<close>

definition get_user_by_slug_or_404 :: "user list \<Rightarrow> string \<Rightarrow> string \<Rightarrow> error + user" where
  "get_user_by_slug_or_404 us slug role =
     (case find (\<lambda>u. profile_slug u = slug) (filter (\<lambda>u. user_type u = role) us) of
        None \<Rightarrow> Inl NotFoundError
      | Some u \<Rightarrow> Inr u)"

text \<open>\<^verbatim>\<open>get_object_or_404(ServiceOrder, id=order_id, buyer=...)\<close> and
  \<^verbatim>\<open>get_object_or_404(ServiceOrder, id=order_id, seller=...)\<close>; \<open>party\<close> selects the
  column compared.\<close>

definition get_order_or_404 ::
  "(pk \<rightharpoonup> service_order) \<Rightarrow> pk \<Rightarrow> (service_order \<Rightarrow> pk) \<Rightarrow> pk \<Rightarrow> error + service_order" where
  "get_order_or_404 tbl order_id party who =
     (case tbl order_id of
        None \<Rightarrow> Inl NotFoundError
      | Some od \<Rightarrow> if party od = who then Inr od else Inl NotFoundError)"

text \<open>\<^verbatim>\<open>order.save()\<close> writes the row under its primary key.\<close>

definition save :: "db \<Rightarrow> pk \<Rightarrow> service_order \<Rightarrow> db" where
  "save d order_id od = d\<lparr>orders := (orders d)(order_id \<mapsto> od)\<rparr>"

section \<open>Accepting an order (\<^verbatim>\<open>AcceptOrderView\<close>)\<close>

definition accept_order_update :: "db \<Rightarrow> user \<Rightarrow> string \<Rightarrow> pk \<Rightarrow> error + (db \<times> service_order)" where
  "accept_order_update d request_user seller_slug order_id =
     (case get_user_by_slug_or_404 (users d) seller_slug ''seller'' of
        Inl e \<Rightarrow> Inl e
      | Inr s \<Rightarrow>
          (case get_order_or_404 (orders d) order_id seller (uid s) of
             Inl e \<Rightarrow> Inl e
           | Inr od \<Rightarrow>
               if seller od \<noteq> uid request_user then Inl ForbiddenError
               else
                 let od' = od\<lparr>seller_agreed := True, status := Accepted\<rparr>
                 in Inr (save d order_id od', od')))"

section \<open>The buyer's status update (\<^verbatim>\<open>UpdateServiceOrderView\<close>)\<close>

definition buyer_update_get_object :: "db \<Rightarrow> user \<Rightarrow> string \<Rightarrow> pk \<Rightarrow> error + service_order" where
  "buyer_update_get_object d request_user buyer_slug order_id =
     (case get_user_by_slug_or_404 (users d) buyer_slug ''customer'' of
        Inl e \<Rightarrow> Inl e
      | Inr b \<Rightarrow>
          (case get_order_or_404 (orders d) order_id buyer (uid b) of
             Inl e \<Rightarrow> Inl e
           | Inr od \<Rightarrow>
               if buyer od \<noteq> uid request_user then Inl ForbiddenError
               else if status od \<notin> set [Pending, Accepted] then Inl ForbiddenError
               else Inr od))"

text \<open>\<^verbatim>\<open>BuyerUpdateOrderSerializer\<close> with \<^verbatim>\<open>partial=True\<close>: the status may be left out;
  a status that is sent must be one of the two choices.\<close>

definition buyer_serializer_is_valid :: "string option \<Rightarrow> error + string option" where
  "buyer_serializer_is_valid status_data =
     (case status_data of
        None \<Rightarrow> Inr None
      | Some s \<Rightarrow> if s \<in> set [''cancelled'', ''completed''] then Inr (Some s)
                  else Inl ValidationError)"

text \<open>The body of \<^verbatim>\<open>UpdateServiceOrderView.update\<close> after the order was fetched and
  the payload validated.\<close>

definition buyer_transition ::
  "service_order \<Rightarrow> string option \<Rightarrow> date \<Rightarrow> error + service_order" where
  "buyer_transition od new_status today =
     (if new_status = Some ''cancelled'' then Inr (od\<lparr>status := Cancelled\<rparr>)
      else if new_status = Some ''completed'' then
        (let od1 = od\<lparr>status := Completed\<rparr>;
             net_total = total_amount od1 - or_zero (discount_price od1)
         in if net_total \<le> 0 \<or> advance_paid od1 \<ge> net_total then
              Inr (stamp_if_unset today (od1\<lparr>is_fully_paid := True\<rparr>))
            else Inr od1)
      else Inl InvalidStatusUpdate)"

definition buyer_order_update ::
  "db \<Rightarrow> user \<Rightarrow> string \<Rightarrow> pk \<Rightarrow> string option \<Rightarrow> date \<Rightarrow> error + (db \<times> service_order)" where
  "buyer_order_update d request_user buyer_slug order_id status_data today =
     (case buyer_update_get_object d request_user buyer_slug order_id of
        Inl e \<Rightarrow> Inl e
      | Inr od \<Rightarrow>
          (case buyer_serializer_is_valid status_data of
             Inl e \<Rightarrow> Inl e
           | Inr new_status \<Rightarrow>
               (case buyer_transition od new_status today of
                  Inl e \<Rightarrow> Inl e
                | Inr od' \<Rightarrow> Inr (save d order_id od', od'))))"

section \<open>The seller's financial update (\<^verbatim>\<open>SellerUpdateServiceOrderView\<close>)\<close>

text \<open>
  A key of the request payload is left out, sent as \<^verbatim>\<open>null\<close>, or sent with a value.
  A value stands for one that the framework parsed into the field's type (a decimal of
  two places, a URL, a date); the checks that the serializer class itself declares
  (\<^verbatim>\<open>min_value\<close>, \<^verbatim>\<open>validate\<close>) are part of the model. The invoice field is
  generated from the model's \<^verbatim>\<open>URLField(blank=True, null=True)\<close>: besides a URL it
  accepts \<^verbatim>\<open>null\<close> and the empty string, which reaches \<^verbatim>\<open>update\<close> as the value
  \<^verbatim>\<open>''\<close>.
\<close>

datatype 'a field = Omitted | Null | Given 'a

record seller_payload =
  discount_price_in :: "money field"
  advance_paid_in :: "money field"
  invoice_file_in :: "string field"
  full_payment_date_in :: "date field"

text \<open>\<^verbatim>\<open>dict.get(key, default)\<close> on the validated data: the default only replaces a key
  that is absent.\<close>

definition dict_get :: "'a field \<Rightarrow> 'a option \<Rightarrow> 'a option" where
  "dict_get f dflt = (case f of Omitted \<Rightarrow> dflt | Null \<Rightarrow> None | Given v \<Rightarrow> Some v)"

definition seller_update_get_object :: "db \<Rightarrow> user \<Rightarrow> string \<Rightarrow> pk \<Rightarrow> error + service_order" where
  "seller_update_get_object d request_user seller_slug order_id =
     (case get_user_by_slug_or_404 (users d) seller_slug ''seller'' of
        Inl e \<Rightarrow> Inl e
      | Inr s \<Rightarrow>
          (case get_order_or_404 (orders d) order_id seller (uid s) of
             Inl e \<Rightarrow> Inl e
           | Inr od \<Rightarrow>
               if seller od \<noteq> uid request_user then Inl ForbiddenError
               else if status od = Cancelled then Inl ForbiddenError
               else Inr od))"

text \<open>The two declared fields
  \<^verbatim>\<open>DecimalField(min_value=Decimal("0.00"), required=False)\<close>: they do not allow
  \<^verbatim>\<open>null\<close>, and a value below the minimum is refused.\<close>

definition decimal_field_valid :: "money field \<Rightarrow> bool" where
  "decimal_field_valid f = (case f of Omitted \<Rightarrow> True | Null \<Rightarrow> False | Given v \<Rightarrow> 0 \<le> v)"

text \<open>\<^verbatim>\<open>UpdateServiceSellerOrderSerializer.validate\<close>; the instance is absent when the
  serializer is built without one.\<close>

definition validate :: "user \<Rightarrow> service_order option \<Rightarrow> seller_payload \<Rightarrow> error + seller_payload" where
  "validate request_user instance data =
     (if user_type request_user \<noteq> ''seller'' then Inl ValidationError
      else
        let total = map_option total_amount instance;
            discount = dict_get (discount_price_in data)
                         (Some (case instance of None \<Rightarrow> 0 | Some od \<Rightarrow> discount_price od))
        in case total of
             None \<Rightarrow> Inr data
           | Some t \<Rightarrow>
               (case discount of
                  None \<Rightarrow> Inl TypeError
                | Some dc \<Rightarrow> if dc > t then Inl ValidationError else Inr data))"

text \<open>\<^verbatim>\<open>serializer.is_valid(raise_exception=True)\<close>: the fields first, then
  \<^verbatim>\<open>validate\<close>.\<close>

definition seller_serializer_is_valid ::
  "user \<Rightarrow> service_order option \<Rightarrow> seller_payload \<Rightarrow> error + seller_payload" where
  "seller_serializer_is_valid request_user instance data =
     (if \<not> decimal_field_valid (discount_price_in data) then Inl ValidationError
      else if \<not> decimal_field_valid (advance_paid_in data) then Inl ValidationError
      else validate request_user instance data)"

text \<open>\<^verbatim>\<open>UpdateServiceSellerOrderSerializer.update\<close>.\<close>

definition update :: "service_order \<Rightarrow> seller_payload \<Rightarrow> date \<Rightarrow> service_order" where
  "update instance validated_data today =
     (let discount = dict_get (discount_price_in validated_data) (Some (discount_price instance));
          advance = dict_get (advance_paid_in validated_data) (Some (advance_paid instance));
          invoice = dict_get (invoice_file_in validated_data) None;
          fpd = dict_get (full_payment_date_in validated_data) (full_payment_date instance);
          inst1 = (if invoice \<noteq> None then instance\<lparr>invoice_file := invoice\<rparr> else instance);
          inst2 = (if fpd \<noteq> None then inst1\<lparr>full_payment_date := fpd\<rparr> else inst1)
      in apply_seller_update inst2 discount advance today)"

definition seller_order_update ::
  "db \<Rightarrow> user \<Rightarrow> string \<Rightarrow> pk \<Rightarrow> seller_payload \<Rightarrow> date \<Rightarrow> error + (db \<times> service_order)" where
  "seller_order_update d request_user seller_slug order_id data today =
     (case seller_update_get_object d request_user seller_slug order_id of
        Inl e \<Rightarrow> Inl e
      | Inr od \<Rightarrow>
          (case seller_serializer_is_valid request_user (Some od) data of
             Inl e \<Rightarrow> Inl e
           | Inr validated_data \<Rightarrow>
               let od' = update od validated_data today
               in Inr (save d order_id od', od')))"

section \<open>Deleting or cancelling (\<^verbatim>\<open>DeleteServiceOrderView\<close>)\<close>

datatype delete_outcome = OrderCancelled | OrderDeleted

definition delete_get_object :: "db \<Rightarrow> user \<Rightarrow> string \<Rightarrow> pk \<Rightarrow> error + service_order" where
  "delete_get_object d request_user buyer_slug order_id =
     (case get_user_by_slug_or_404 (users d) buyer_slug ''customer'' of
        Inl e \<Rightarrow> Inl e
      | Inr b \<Rightarrow>
          (case get_order_or_404 (orders d) order_id buyer (uid b) of
             Inl e \<Rightarrow> Inl e
           | Inr od \<Rightarrow>
               if buyer od \<noteq> uid request_user \<and> seller od \<noteq> uid request_user
               then Inl ForbiddenError
               else Inr od))"

text \<open>\<^verbatim>\<open>DeleteServiceOrderView.destroy\<close>. \<open>OrderCancelled\<close> is the response
  \<^verbatim>\<open>{"success": "Order cancelled"}\<close>; \<open>OrderDeleted\<close> is the response of the inherited
  \<^verbatim>\<open>destroy\<close>, which fetches the object again and deletes the row.\<close>

definition destroy :: "db \<Rightarrow> user \<Rightarrow> string \<Rightarrow> pk \<Rightarrow> error + (db \<times> delete_outcome)" where
  "destroy d request_user buyer_slug order_id =
     (case delete_get_object d request_user buyer_slug order_id of
        Inl e \<Rightarrow> Inl e
      | Inr od \<Rightarrow>
          if buyer od = uid request_user \<and> status od = Pending then
            Inr (save d order_id (od\<lparr>status := Cancelled\<rparr>), OrderCancelled)
          else if seller od = uid request_user then
            (case delete_get_object d request_user buyer_slug order_id of
               Inl e \<Rightarrow> Inl e
             | Inr od2 \<Rightarrow> Inr (d\<lparr>orders := (orders d)(order_id := None)\<rparr>, OrderDeleted))
          else Inl ForbiddenError)"

section \<open>Creating an order (\<^verbatim>\<open>CreateServiceOrderView\<close>)\<close>

text \<open>\<^verbatim>\<open>EventService.SERVICE_CHOICES\<close> and \<^verbatim>\<open>get_service_type_display\<close>, which shows a
  value outside the choices as it is.\<close>

definition SERVICE_CHOICES :: "(string \<times> string) list" where
  "SERVICE_CHOICES =
     [(''photography'', ''Photography''),
      (''videography'', ''Videography''),
      (''hall_booking'', ''Hall Booking''),
      (''sound_system'', ''Sound System (DJ)''),
      (''lighting'', ''Lighting''),
      (''chef_booking'', ''Chef Booking''),
      (''catering'', ''Catering'')]"

definition get_service_type_display :: "string \<Rightarrow> string" where
  "get_service_type_display t =
     (case map_of SERVICE_CHOICES t of None \<Rightarrow> t | Some label \<Rightarrow> label)"

text \<open>The rows that
  \<^verbatim>\<open>EventServiceDetail.objects.get(event=event, service__service_type=service_type, is_available=True)\<close>
  selects from.\<close>

definition matching_details ::
  "event_service_detail list \<Rightarrow> pk \<Rightarrow> string \<Rightarrow> event_service_detail list" where
  "matching_details ds event_id t =
     filter (\<lambda>sd. detail_event sd = event_id \<and> service_type sd = t \<and> is_available sd) ds"

text \<open>The snapshot appended to \<^verbatim>\<open>service_details\<close>, with the price converted by
  \<^verbatim>\<open>float\<close>.\<close>

definition snapshot :: "event_service_detail \<Rightarrow> service_line" where
  "snapshot sd =
     \<lparr>line_id = service_id sd,
      line_name = get_service_type_display (service_type sd),
      line_price = PyFloat (price sd)\<rparr>"

text \<open>The loop over the requested service types: \<^verbatim>\<open>objects.get\<close> raises
  \<^verbatim>\<open>DoesNotExist\<close> on no row, which the loop skips, and
  \<^verbatim>\<open>MultipleObjectsReturned\<close> on several, which it does not catch.\<close>

fun process_selected_services ::
  "event_service_detail list \<Rightarrow> pk \<Rightarrow> string list \<Rightarrow> money \<Rightarrow> service_line list
     \<Rightarrow> error + (money \<times> service_line list)" where
  "process_selected_services ds event_id [] tot lines = Inr (tot, lines)"
| "process_selected_services ds event_id (t # ts) tot lines =
     (case matching_details ds event_id t of
        [] \<Rightarrow> process_selected_services ds event_id ts tot lines
      | [sd] \<Rightarrow>
          process_selected_services ds event_id ts (tot + price sd) (lines @ [snapshot sd])
      | _ # _ # _ \<Rightarrow> Inl MultipleObjectsReturned)"

text \<open>The payload of a creation request. \<open>validated\<close> is the data of
  \<^verbatim>\<open>CreateServiceOrderSerializer\<close> when \<^verbatim>\<open>is_valid\<close> accepts the payload and
  \<^verbatim>\<open>None\<close> when it raises; \<open>event_id_in\<close> is \<^verbatim>\<open>request.data.get("event_id")\<close>.\<close>

record create_fields =
  event_date_in :: date
  event_time_in :: nat
  location_in :: string
  selected_services_in :: "string list"

record create_payload =
  event_id_in :: "pk option"
  validated :: "create_fields option"

text \<open>\<^verbatim>\<open>ServiceOrder.objects.create(...)\<close> with the defaults of the model's fields.\<close>

definition new_order ::
  "pk \<Rightarrow> user \<Rightarrow> pk \<Rightarrow> create_fields \<Rightarrow> service_line list \<Rightarrow> money \<Rightarrow> service_order" where
  "new_order seller_id b event_id flds lines tot =
     \<lparr>seller = seller_id, buyer = uid b, event = event_id, buyer_name = full_name b,
      event_date = event_date_in flds, event_time = event_time_in flds,
      location = location_in flds, selected_services = lines,
      seller_agreed = False, status = Pending,
      total_amount = tot, discount_price = 0, advance_paid = 0,
      is_fully_paid = False, full_payment_date = None, invoice_file = None\<rparr>"

text \<open>\<^verbatim>\<open>CreateServiceOrderView.create\<close>; \<open>new_id\<close> is the identifier that
  \<^verbatim>\<open>generate_order_id\<close> draws for the new row.\<close>

definition create ::
  "db \<Rightarrow> user \<Rightarrow> string \<Rightarrow> create_payload \<Rightarrow> pk \<Rightarrow> error + (db \<times> service_order)" where
  "create d request_user buyer_slug data new_id =
     (case get_user_by_slug_or_404 (users d) buyer_slug ''customer'' of
        Inl e \<Rightarrow> Inl e
      | Inr b \<Rightarrow>
          if uid request_user \<noteq> uid b then Inl ForbiddenError
          else
            (case validated data of
               None \<Rightarrow> Inl ValidationError
             | Some flds \<Rightarrow>
                 (case event_id_in data of
                    None \<Rightarrow> Inl NotFoundError
                  | Some event_id \<Rightarrow>
                      (case events d event_id of
                         None \<Rightarrow> Inl NotFoundError
                       | Some ev \<Rightarrow>
                           (case process_selected_services (service_details d) event_id
                                   (selected_services_in flds) 0 [] of
                              Inl e \<Rightarrow> Inl e
                            | Inr (tot, lines) \<Rightarrow>
                                let od = new_order (event_seller ev) b event_id flds lines tot
                                in Inr (save d new_id od, od))))))"

section \<open>Sequences of recomputations and sample data\<close>

text \<open>The two operations that recompute the payment state on their own: the seller's
  financial update through the model, and the buyer's transition to completed.\<close>

datatype recomputation =
    SellerFinancials "money option" "money option" date
  | BuyerCompleted date

fun recompute :: "service_order \<Rightarrow> recomputation \<Rightarrow> service_order" where
  "recompute od (SellerFinancials dp ap today) = apply_seller_update od dp ap today"
| "recompute od (BuyerCompleted today) =
     (case buyer_transition od (Some ''completed'') today of
        Inl e \<Rightarrow> od
      | Inr od' \<Rightarrow> od')"

text \<open>A small database for concrete runs: one seller with one event offering catering
  at 300.00, one customer, a third user, and a pending order of 500.00 with 200.00
  paid in advance.\<close>

definition sam :: user where
  "sam = \<lparr>uid = ''S1'', user_type = ''seller'', profile_slug = ''sam-seller'',
          full_name = ''Sam Seller''\<rparr>"

definition bea :: user where
  "bea = \<lparr>uid = ''B1'', user_type = ''customer'', profile_slug = ''bea-buyer'',
          full_name = ''Bea Buyer''\<rparr>"

definition eve :: user where
  "eve = \<lparr>uid = ''X1'', user_type = ''customer'', profile_slug = ''eve-other'',
          full_name = ''Eve Other''\<rparr>"

definition order1 :: service_order where
  "order1 =
     \<lparr>seller = ''S1'', buyer = ''B1'', event = ''E1'', buyer_name = ''Bea Buyer'',
      event_date = 20000, event_time = 18, location = ''Dhaka'',
      selected_services = [],
      seller_agreed = False, status = Pending,
      total_amount = 50000, discount_price = 0, advance_paid = 20000,
      is_fully_paid = False, full_payment_date = None, invoice_file = None\<rparr>"

definition catering_detail :: event_service_detail where
  "catering_detail =
     \<lparr>detail_event = ''E1'', service_id = ''SV1'', service_type = ''catering'',
      price = 30000, is_available = True\<rparr>"

text \<open>A second row of the same event for a second catering service: the constraint
  \<^verbatim>\<open>uniq_event_service\<close> is on the pair of event and service, and the type of a
  service is not unique.\<close>

definition catering_detail2 :: event_service_detail where
  "catering_detail2 =
     \<lparr>detail_event = ''E1'', service_id = ''SV2'', service_type = ''catering'',
      price = 45000, is_available = True\<rparr>"

definition db1 :: db where
  "db1 =
     \<lparr>users = [sam, bea, eve],
      events = [''E1'' \<mapsto> \<lparr>event_seller = ''S1''\<rparr>],
      service_details = [catering_detail],
      orders = [''O1'' \<mapsto> order1]\<rparr>"

definition db2 :: db where
  "db2 = db1\<lparr>service_details := [catering_detail, catering_detail2]\<rparr>"

section \<open>Seller financial updates: the fully-paid rule\<close>

lemma or_zero_id: "or_zero x = x"
  by (simp add: or_zero_def)

lemma apply_seller_update_total:
  "total_amount (apply_seller_update od dp ap today) = total_amount od"
  by (simp add: apply_seller_update_def Let_def stamp_if_unset_def split: option.splits)

lemma apply_seller_update_discount:
  "discount_price (apply_seller_update od dp ap today) =
     min (max 0 (case dp of None \<Rightarrow> discount_price od | Some d \<Rightarrow> d)) (total_amount od)"
  by (simp add: apply_seller_update_def Let_def stamp_if_unset_def or_zero_id
      split: option.splits)

lemma apply_seller_update_advance:
  "advance_paid (apply_seller_update od dp ap today) =
     max 0 (case ap of None \<Rightarrow> advance_paid od | Some a \<Rightarrow> a)"
  by (simp add: apply_seller_update_def Let_def stamp_if_unset_def or_zero_id
      split: option.splits)

lemma apply_seller_update_fully_paid:
  "is_fully_paid (apply_seller_update od dp ap today) =
     (let od' = apply_seller_update od dp ap today;
          net_total = max 0 (total_amount od' - discount_price od')
      in net_total = 0 \<or> advance_paid od' \<ge> net_total)"
  by (auto simp add: apply_seller_update_def Let_def stamp_if_unset_def or_zero_id
      split: option.splits)

text \<open>The serializer's \<^verbatim>\<open>update\<close> ends in \<^verbatim>\<open>apply_seller_update\<close> on an instance
  that differs from the stored one in the invoice and the payment date only.\<close>

lemma update_as_apply:
  "\<exists>inst dp ap.
     update od data today = apply_seller_update inst dp ap today \<and>
     total_amount inst = total_amount od \<and> status inst = status od"
  unfolding update_def Let_def
  by (rule exI [where x = "if dict_get (full_payment_date_in data) (full_payment_date od) \<noteq> None
        then (if dict_get (invoice_file_in data) None \<noteq> None
              then od\<lparr>invoice_file := dict_get (invoice_file_in data) None\<rparr> else od)
             \<lparr>full_payment_date := dict_get (full_payment_date_in data) (full_payment_date od)\<rparr>
        else (if dict_get (invoice_file_in data) None \<noteq> None
              then od\<lparr>invoice_file := dict_get (invoice_file_in data) None\<rparr> else od)"])
    auto

text \<open>The rule on what the call receives: the discount and the advance supplied or,
  when none is supplied, stored, clamped as the method clamps them.\<close>

lemma apply_seller_update_fully_paid_inputs:
  "is_fully_paid (apply_seller_update od dp ap today) =
     (let d = min (max 0 (case dp of None \<Rightarrow> discount_price od | Some x \<Rightarrow> x))
                (total_amount od);
          a = max 0 (case ap of None \<Rightarrow> advance_paid od | Some x \<Rightarrow> x);
          net_total = max 0 (total_amount od - d)
      in net_total = 0 \<or> a \<ge> net_total)"
  using apply_seller_update_fully_paid [of od dp ap today]
  by (simp add: Let_def apply_seller_update_total apply_seller_update_discount
      apply_seller_update_advance)

lemma update_discount:
  "discount_price (update od data today) =
     min (max 0 (case discount_price_in data of Given x \<Rightarrow> x | _ \<Rightarrow> discount_price od))
       (total_amount od)"
  by (simp add: update_def Let_def dict_get_def apply_seller_update_discount
      split: field.splits)

lemma update_advance:
  "advance_paid (update od data today) =
     max 0 (case advance_paid_in data of Given x \<Rightarrow> x | _ \<Rightarrow> advance_paid od)"
  by (simp add: update_def Let_def dict_get_def apply_seller_update_advance
      split: field.splits)

lemma update_total: "total_amount (update od data today) = total_amount od"
  by (simp add: update_def Let_def apply_seller_update_total)

lemma update_fully_paid:
  "is_fully_paid (update od data today) =
     (let od' = update od data today;
          net_total = max 0 (total_amount od' - discount_price od')
      in net_total = 0 \<or> advance_paid od' \<ge> net_total)"
proof -
  obtain inst dp' ap' where u: "update od data today = apply_seller_update inst dp' ap' today"
    using update_as_apply by blast
  show ?thesis
    unfolding u by (rule apply_seller_update_fully_paid)
qed

lemma update_fully_paid_inputs:
  "is_fully_paid (update od data today) =
     (let d = min (max 0 (case discount_price_in data of Given x \<Rightarrow> x | _ \<Rightarrow> discount_price od))
                (total_amount od);
          a = max 0 (case advance_paid_in data of Given x \<Rightarrow> x | _ \<Rightarrow> advance_paid od);
          net_total = max 0 (total_amount od - d)
      in net_total = 0 \<or> a \<ge> net_total)"
  using update_fully_paid [of od data today]
  by (simp add: Let_def update_discount update_advance update_total)

text \<open>
  C1. A seller financial update, through the model method or through the serializer,
  stores the clamped discount \<open>d = min (max 0 discount) total_amount\<close> and the clamped
  advance \<open>a = max 0 advance\<close> of the values supplied or, when none is supplied,
  stored, and it sets \<^verbatim>\<open>is_fully_paid\<close> exactly when the net total
  \<open>max 0 (total_amount - d)\<close> is zero or is covered by \<open>a\<close>; so \<^verbatim>\<open>is_fully_paid\<close>
  holds afterwards exactly when the net total of the stored values is zero or is
  covered by the stored advance. An order of 1000.00 discounted by 1000.00 is fully
  paid whatever the advance, an order of 500.00 with 500.00 paid in advance and no
  discount is fully paid, and an order of 500.00 with 200.00 paid in advance and no
  discount is not.
\<close>

theorem C1_fully_paid_rule:
  "is_fully_paid (apply_seller_update od dp ap today) =
     (let d = min (max 0 (case dp of None \<Rightarrow> discount_price od | Some x \<Rightarrow> x))
                (total_amount od);
          a = max 0 (case ap of None \<Rightarrow> advance_paid od | Some x \<Rightarrow> x);
          net_total = max 0 (total_amount od - d)
      in net_total = 0 \<or> a \<ge> net_total)
   \<and> discount_price (apply_seller_update od dp ap today) =
     min (max 0 (case dp of None \<Rightarrow> discount_price od | Some x \<Rightarrow> x)) (total_amount od)
   \<and> advance_paid (apply_seller_update od dp ap today) =
     max 0 (case ap of None \<Rightarrow> advance_paid od | Some x \<Rightarrow> x)
   \<and> total_amount (apply_seller_update od dp ap today) = total_amount od
   \<and> is_fully_paid (apply_seller_update od dp ap today) =
     (let od' = apply_seller_update od dp ap today;
          net_total = max 0 (total_amount od' - discount_price od')
      in net_total = 0 \<or> advance_paid od' \<ge> net_total)
   \<and> is_fully_paid (update od data today) =
     (let d = min (max 0 (case discount_price_in data of Given x \<Rightarrow> x | _ \<Rightarrow> discount_price od))
                (total_amount od);
          a = max 0 (case advance_paid_in data of Given x \<Rightarrow> x | _ \<Rightarrow> advance_paid od);
          net_total = max 0 (total_amount od - d)
      in net_total = 0 \<or> a \<ge> net_total)
   \<and> is_fully_paid (update od data today) =
     (let od' = update od data today;
          net_total = max 0 (total_amount od' - discount_price od')
      in net_total = 0 \<or> advance_paid od' \<ge> net_total)
   \<and> is_fully_paid (apply_seller_update (od\<lparr>total_amount := 100000\<rparr>) (Some 100000) ap today)
   \<and> is_fully_paid
       (apply_seller_update (od\<lparr>total_amount := 50000\<rparr>) (Some 0) (Some 50000) today)
   \<and> \<not> is_fully_paid
       (apply_seller_update (od\<lparr>total_amount := 50000\<rparr>) (Some 0) (Some 20000) today)"
proof -
  have b: "is_fully_paid
      (apply_seller_update (od\<lparr>total_amount := 100000\<rparr>) (Some 100000) ap today)"
    by (simp add: apply_seller_update_fully_paid_inputs)
  have c: "is_fully_paid
      (apply_seller_update (od\<lparr>total_amount := 50000\<rparr>) (Some 0) (Some 50000) today)"
    by (simp add: apply_seller_update_fully_paid_inputs)
  have e: "\<not> is_fully_paid
      (apply_seller_update (od\<lparr>total_amount := 50000\<rparr>) (Some 0) (Some 20000) today)"
    by (simp add: apply_seller_update_fully_paid_inputs)
  show ?thesis
    using apply_seller_update_fully_paid_inputs [of od dp ap today]
      apply_seller_update_discount [of od dp ap today]
      apply_seller_update_advance [of od dp ap today]
      apply_seller_update_total [of od dp ap today]
      apply_seller_update_fully_paid [of od dp ap today]
      update_fully_paid_inputs [of od data today]
      update_fully_paid [of od data today] b c e
    by blast
qed

section \<open>Seller financial updates: clamping\<close>

text \<open>
  C2. The model method first raises a negative discount or advance to zero and then
  lowers the discount to the total: the stored discount is
  \<open>min (max 0 d) total_amount\<close> and the stored advance is \<open>max 0 a\<close>, for the values
  \<open>d\<close> and \<open>a\<close> supplied or, when none is supplied, stored. So after every update,
  through the model or through the serializer, the stored discount is at most the
  total and the stored advance is not negative; and the stored discount is not negative
  when the total is not, as the data model has it.
\<close>

theorem C2_clamping:
  "discount_price (apply_seller_update od dp ap today) =
     min (max 0 (case dp of None \<Rightarrow> discount_price od | Some d \<Rightarrow> d)) (total_amount od)
   \<and> advance_paid (apply_seller_update od dp ap today) =
     max 0 (case ap of None \<Rightarrow> advance_paid od | Some a \<Rightarrow> a)
   \<and> discount_price (apply_seller_update od dp ap today)
       \<le> total_amount (apply_seller_update od dp ap today)
   \<and> 0 \<le> advance_paid (apply_seller_update od dp ap today)
   \<and> discount_price (update od data today) \<le> total_amount (update od data today)
   \<and> 0 \<le> advance_paid (update od data today)
   \<and> (0 \<le> total_amount od \<longrightarrow>
        0 \<le> discount_price (apply_seller_update od dp ap today) \<and>
        0 \<le> discount_price (update od data today))"
proof -
  obtain inst dp' ap' where u: "update od data today = apply_seller_update inst dp' ap' today"
    and t: "total_amount inst = total_amount od"
    using update_as_apply by blast
  have "discount_price (update od data today) \<le> total_amount (update od data today)"
    unfolding u by (simp add: apply_seller_update_discount apply_seller_update_total)
  moreover have "0 \<le> advance_paid (update od data today)"
    unfolding u by (simp add: apply_seller_update_advance)
  moreover have "0 \<le> total_amount od \<longrightarrow> 0 \<le> discount_price (update od data today)"
    unfolding u using t by (simp add: apply_seller_update_discount)
  ultimately show ?thesis
    by (simp add: apply_seller_update_discount apply_seller_update_advance
        apply_seller_update_total)
qed

theorem C2_clamping_witness:
  "0 \<le> total_amount order1
   \<and> discount_price (apply_seller_update order1 (Some (- 700)) (Some (- 300)) 20001) = 0
   \<and> advance_paid (apply_seller_update order1 (Some (- 700)) (Some (- 300)) 20001) = 0
   \<and> discount_price (apply_seller_update order1 (Some 60000) None 20001) = 50000
   \<and> 0 \<le> discount_price (update order1
        \<lparr>discount_price_in = Given 10000, advance_paid_in = Omitted,
         invoice_file_in = Omitted, full_payment_date_in = Omitted\<rparr> 20001)"
  using C2_clamping [of order1 "Some (- 700)" "Some (- 300)" 20001
      "\<lparr>discount_price_in = Given 10000, advance_paid_in = Omitted,
        invoice_file_in = Omitted, full_payment_date_in = Omitted\<rparr>"]
    C2_clamping [of order1 "Some 60000" None 20001
      "\<lparr>discount_price_in = Given 10000, advance_paid_in = Omitted,
        invoice_file_in = Omitted, full_payment_date_in = Omitted\<rparr>"]
  by (simp add: order1_def)

section \<open>The payment date\<close>

lemma apply_seller_update_fpd:
  "full_payment_date (apply_seller_update od dp ap today) =
     (case full_payment_date od of
        None \<Rightarrow> if is_fully_paid (apply_seller_update od dp ap today) then Some today else None
      | Some d \<Rightarrow> Some d)"
  by (simp add: apply_seller_update_def Let_def stamp_if_unset_def split: option.splits)

lemma buyer_transition_fpd:
  "buyer_transition od ns today = Inr od' \<Longrightarrow> full_payment_date od = Some d
     \<Longrightarrow> full_payment_date od' = Some d"
  by (auto simp add: buyer_transition_def Let_def stamp_if_unset_def
      split: if_splits option.splits)

lemma recompute_fpd:
  "full_payment_date od = Some d \<Longrightarrow> full_payment_date (recompute od r) = Some d"
  by (cases r) (auto simp add: apply_seller_update_fpd buyer_transition_fpd split: sum.splits)

lemma foldl_recompute_fpd:
  "full_payment_date od = Some d \<Longrightarrow> full_payment_date (foldl recompute od rs) = Some d"
  by (induction rs arbitrary: od) (simp_all add: recompute_fpd)

lemma update_fpd:
  "full_payment_date (update od data today) =
     (case full_payment_date_in data of
        Given d' \<Rightarrow> Some d'
      | _ \<Rightarrow>
        (case full_payment_date od of
           None \<Rightarrow> if is_fully_paid (update od data today) then Some today else None
         | Some d \<Rightarrow> Some d))"
  by (simp add: update_def Let_def dict_get_def apply_seller_update_fpd
       split: field.splits option.splits)

lemma buyer_completed_fpd:
  "full_payment_date (recompute od (BuyerCompleted today)) =
     (case full_payment_date od of
        None \<Rightarrow>
          if total_amount od - discount_price od \<le> 0 \<or>
             advance_paid od \<ge> total_amount od - discount_price od
          then Some today else None
      | Some d \<Rightarrow> Some d)"
  by (simp add: buyer_transition_def Let_def stamp_if_unset_def or_zero_id
      split: option.splits)

text \<open>
  C4. A seller financial update stamps an unset \<^verbatim>\<open>full_payment_date\<close> with the
  current date exactly when it finds the order fully paid, and leaves a date that is
  set as it is; the buyer's completion does the same, stamping an unset date exactly
  when the net total is covered. A date that is set survives every sequence of later recomputations,
  by seller financial updates through the model and by the buyer's completion, whatever
  they do to \<^verbatim>\<open>advance_paid\<close> and \<^verbatim>\<open>is_fully_paid\<close>. Through the serializer, a date
  supplied with a value replaces the stored one; a date left out or sent as
  \<^verbatim>\<open>null\<close> behaves as the automatic recomputation does.
\<close>

theorem C4_full_payment_date_stamped_once:
  "full_payment_date (apply_seller_update od dp ap today) =
     (case full_payment_date od of
        None \<Rightarrow> if is_fully_paid (apply_seller_update od dp ap today) then Some today else None
      | Some d \<Rightarrow> Some d)
   \<and> full_payment_date (recompute od (BuyerCompleted today)) =
     (case full_payment_date od of
        None \<Rightarrow>
          if total_amount od - discount_price od \<le> 0 \<or>
             advance_paid od \<ge> total_amount od - discount_price od
          then Some today else None
      | Some d \<Rightarrow> Some d)
   \<and> (full_payment_date od = Some d0 \<longrightarrow>
        full_payment_date (foldl recompute od rs) = Some d0)
   \<and> full_payment_date (update od data today) =
     (case full_payment_date_in data of
        Given d' \<Rightarrow> Some d'
      | _ \<Rightarrow>
        (case full_payment_date od of
           None \<Rightarrow> if is_fully_paid (update od data today) then Some today else None
         | Some d \<Rightarrow> Some d))"
  using apply_seller_update_fpd [of od dp ap today] buyer_completed_fpd [of od today]
    foldl_recompute_fpd [of od d0 rs] update_fpd [of od data today]
  by blast

text \<open>The pending order of 500.00 is paid up on day 20001, the advance is then lowered
  to 100.00 on day 20005, and the buyer completes the order on day 20009: the date of
  day 20001 stays, while the order is no longer fully paid.\<close>

theorem C4_full_payment_date_stamped_once_witness:
  "full_payment_date order1 = None
   \<and> full_payment_date (apply_seller_update order1 None (Some 50000) 20001) = Some 20001
   \<and> full_payment_date
       (foldl recompute (apply_seller_update order1 None (Some 50000) 20001)
          [SellerFinancials None (Some 10000) 20005, BuyerCompleted 20009]) = Some 20001
   \<and> \<not> is_fully_paid
       (foldl recompute (apply_seller_update order1 None (Some 50000) 20001)
          [SellerFinancials None (Some 10000) 20005, BuyerCompleted 20009])"
proof -
  have set: "full_payment_date (apply_seller_update order1 None (Some 50000) 20001) = Some 20001"
    by (simp add: apply_seller_update_def Let_def stamp_if_unset_def or_zero_def order1_def)
  have kept: "full_payment_date
       (foldl recompute (apply_seller_update order1 None (Some 50000) 20001)
          [SellerFinancials None (Some 10000) 20005, BuyerCompleted 20009]) = Some 20001"
    using set
      C4_full_payment_date_stamped_once
        [of "apply_seller_update order1 None (Some 50000) 20001" None None 0 20001
          "[SellerFinancials None (Some 10000) 20005, BuyerCompleted 20009]"]
    by blast
  have unpaid: "\<not> is_fully_paid
       (foldl recompute (apply_seller_update order1 None (Some 50000) 20001)
          [SellerFinancials None (Some 10000) 20005, BuyerCompleted 20009])"
    by (simp add: apply_seller_update_def buyer_transition_def Let_def stamp_if_unset_def
        or_zero_def order1_def)
  show ?thesis
    using set kept unpaid by (simp add: order1_def)
qed

section \<open>The amounts as read\<close>

lemma remaining_amount_eq:
  "remaining_amount od = max 0 (total_amount od - discount_price od - advance_paid od)"
  by (simp add: remaining_amount_def or_zero_id Let_def)

lemma get_net_total_eq: "get_net_total od = total_amount od - discount_price od"
  by (simp add: get_net_total_def or_zero_id)

lemma recompute_discount_le_total:
  "discount_price od \<le> total_amount od \<Longrightarrow>
     discount_price (recompute od r) \<le> total_amount (recompute od r)"
  by (cases r) (auto simp add: apply_seller_update_total apply_seller_update_discount
      buyer_transition_def Let_def stamp_if_unset_def split: sum.splits option.splits if_splits)

lemma foldl_recompute_discount_le_total:
  "discount_price od \<le> total_amount od \<Longrightarrow>
     discount_price (foldl recompute od rs) \<le> total_amount (foldl recompute od rs)"
  by (induction rs arbitrary: od) (simp_all add: recompute_discount_le_total)

text \<open>
  C5. The remaining amount, as the model's property reads it, is
  \<open>max 0 (total_amount - discount_price - advance_paid)\<close> and so never negative, for
  every order. The net total, as the serializer reads it, is never negative after a
  seller financial update, through the model or through the serializer; and for an
  order whose discount does not exceed its total, as on a new order with a total that
  is not negative, it is never negative after any sequence of recomputations, where it
  is \<open>max 0 (total_amount - discount_price)\<close>.
\<close>

theorem C5_amounts_never_negative:
  "remaining_amount od = max 0 (total_amount od - discount_price od - advance_paid od)
   \<and> 0 \<le> remaining_amount od
   \<and> 0 \<le> get_net_total (apply_seller_update od dp ap today)
   \<and> 0 \<le> get_net_total (update od data today)
   \<and> (discount_price od \<le> total_amount od \<longrightarrow>
        0 \<le> get_net_total (foldl recompute od rs) \<and>
        get_net_total (foldl recompute od rs) =
          max 0 (total_amount (foldl recompute od rs) - discount_price (foldl recompute od rs)) \<and>
        0 \<le> remaining_amount (foldl recompute od rs))"
proof -
  obtain inst dp' ap' where u: "update od data today = apply_seller_update inst dp' ap' today"
    using update_as_apply by blast
  have a: "0 \<le> get_net_total (apply_seller_update od dp ap today)"
    by (simp add: get_net_total_eq apply_seller_update_total apply_seller_update_discount)
  have b: "0 \<le> get_net_total (update od data today)"
    unfolding u
    by (simp add: get_net_total_eq apply_seller_update_total apply_seller_update_discount)
  have c: "discount_price od \<le> total_amount od \<longrightarrow>
        0 \<le> get_net_total (foldl recompute od rs) \<and>
        get_net_total (foldl recompute od rs) =
          max 0 (total_amount (foldl recompute od rs) - discount_price (foldl recompute od rs))"
    using foldl_recompute_discount_le_total [of od rs] by (simp add: get_net_total_eq)
  show ?thesis
    using a b c by (simp add: remaining_amount_eq)
qed

text \<open>A discount above the total, then an advance above the net total, then a negative
  discount, on the pending order of 500.00.\<close>

theorem C5_amounts_never_negative_witness:
  "discount_price order1 \<le> total_amount order1
   \<and> 0 \<le> get_net_total
       (foldl recompute order1
          [SellerFinancials (Some 90000) None 20001, SellerFinancials None (Some 70000) 20002,
           SellerFinancials (Some (- 100)) None 20003])
   \<and> 0 \<le> remaining_amount
       (foldl recompute order1
          [SellerFinancials (Some 90000) None 20001, SellerFinancials None (Some 70000) 20002,
           SellerFinancials (Some (- 100)) None 20003])
   \<and> remaining_amount order1 = 30000"
  using C5_amounts_never_negative [of order1 None None 0
      "\<lparr>discount_price_in = Omitted, advance_paid_in = Omitted,
        invoice_file_in = Omitted, full_payment_date_in = Omitted\<rparr>"
      "[SellerFinancials (Some 90000) None 20001, SellerFinancials None (Some 70000) 20002,
        SellerFinancials (Some (- 100)) None 20003]"]
  by (simp add: order1_def)

section \<open>The invoice\<close>

lemma update_invoice:
  "invoice_file (update od data today) =
     (case invoice_file_in data of Given f \<Rightarrow> Some f | _ \<Rightarrow> invoice_file od)"
  by (simp add: update_def Let_def dict_get_def apply_seller_update_def stamp_if_unset_def
       split: field.splits option.splits)

lemma seller_order_update_Inr:
  assumes "seller_order_update d u slug oid data today = Inr (d', od')"
  shows "\<exists>od. orders d oid = Some od \<and> seller od = uid u \<and> status od \<noteq> Cancelled \<and>
           seller_serializer_is_valid u (Some od) data = Inr data \<and>
           od' = update od data today \<and> d' = save d oid od'"
  using assms
  by (auto simp add: seller_order_update_def seller_update_get_object_def get_order_or_404_def
      seller_serializer_is_valid_def validate_def Let_def
      split: sum.splits option.splits if_splits)

text \<open>
  C10. The serializer's update stores an invoice that is sent with a value, the empty
  string included, and leaves the stored invoice as it is when the key is left out or
  sent as \<^verbatim>\<open>null\<close>. So an invoice that is set is never reset to \<^verbatim>\<open>null\<close>; it is
  replaced by the empty string when that is what the payload sends. After every
  successful call of the seller's update view the stored order has the invoice sent,
  when one was sent, and the old one otherwise.
\<close>

theorem C10_invoice_replaced_by_value_only:
  "invoice_file (update od data today) =
     (case invoice_file_in data of Given f \<Rightarrow> Some f | _ \<Rightarrow> invoice_file od)
   \<and> (invoice_file_in data = Omitted \<or> invoice_file_in data = Null \<longrightarrow>
        invoice_file (update od data today) = invoice_file od)
   \<and> (invoice_file od \<noteq> None \<longrightarrow> invoice_file (update od data today) \<noteq> None)
   \<and> (invoice_file_in data = Given [] \<longrightarrow> invoice_file (update od data today) = Some [])
   \<and> (seller_order_update d u slug oid data today = Inr (d', od') \<longrightarrow>
        (\<exists>stored. orders d oid = Some stored \<and> orders d' oid = Some od' \<and>
           invoice_file od' =
             (case invoice_file_in data of Given f \<Rightarrow> Some f | _ \<Rightarrow> invoice_file stored)))"
proof -
  have a: "invoice_file od \<noteq> None \<longrightarrow> invoice_file (update od data today) \<noteq> None"
    by (simp add: update_invoice split: field.splits)
  have b: "seller_order_update d u slug oid data today = Inr (d', od') \<longrightarrow>
        (\<exists>stored. orders d oid = Some stored \<and> orders d' oid = Some od' \<and>
           invoice_file od' =
             (case invoice_file_in data of Given f \<Rightarrow> Some f | _ \<Rightarrow> invoice_file stored))"
  proof
    assume "seller_order_update d u slug oid data today = Inr (d', od')"
    then obtain stored where "orders d oid = Some stored" "od' = update stored data today"
      "d' = save d oid od'"
      using seller_order_update_Inr by blast
    then show "\<exists>stored. orders d oid = Some stored \<and> orders d' oid = Some od' \<and>
           invoice_file od' =
             (case invoice_file_in data of Given f \<Rightarrow> Some f | _ \<Rightarrow> invoice_file stored)"
      by (auto simp add: save_def update_invoice)
  qed
  have c: "invoice_file_in data = Omitted \<or> invoice_file_in data = Null \<longrightarrow>
        invoice_file (update od data today) = invoice_file od"
    by (auto simp add: update_invoice)
  have e: "invoice_file_in data = Given [] \<longrightarrow> invoice_file (update od data today) = Some []"
    by (simp add: update_invoice)
  show ?thesis
    using update_invoice [of od data today] a b c e by blast
qed

theorem C10_invoice_replaced_by_value_only_witness:
  "invoice_file (order1\<lparr>invoice_file := Some ''https://files.example/inv1.pdf''\<rparr>) \<noteq> None
   \<and> invoice_file
       (update (order1\<lparr>invoice_file := Some ''https://files.example/inv1.pdf''\<rparr>)
          \<lparr>discount_price_in = Given 5000, advance_paid_in = Omitted,
           invoice_file_in = Null, full_payment_date_in = Omitted\<rparr> 20001)
       = Some ''https://files.example/inv1.pdf''
   \<and> seller_order_update db1 sam ''sam-seller'' ''O1''
         \<lparr>discount_price_in = Omitted, advance_paid_in = Omitted,
          invoice_file_in = Given ''https://files.example/inv2.pdf'',
          full_payment_date_in = Omitted\<rparr> 20001
       = Inr (save db1 ''O1'' (order1\<lparr>invoice_file := Some ''https://files.example/inv2.pdf''\<rparr>),
              order1\<lparr>invoice_file := Some ''https://files.example/inv2.pdf''\<rparr>)"
proof -
  have run: "seller_order_update db1 sam ''sam-seller'' ''O1''
         \<lparr>discount_price_in = Omitted, advance_paid_in = Omitted,
          invoice_file_in = Given ''https://files.example/inv2.pdf'',
          full_payment_date_in = Omitted\<rparr> 20001
       = Inr (save db1 ''O1'' (order1\<lparr>invoice_file := Some ''https://files.example/inv2.pdf''\<rparr>),
              order1\<lparr>invoice_file := Some ''https://files.example/inv2.pdf''\<rparr>)"
    by (simp add: seller_order_update_def seller_update_get_object_def get_order_or_404_def
        get_user_by_slug_or_404_def seller_serializer_is_valid_def decimal_field_valid_def
        validate_def update_def dict_get_def apply_seller_update_def Let_def or_zero_def
        db1_def order1_def sam_def bea_def eve_def)
  show ?thesis
    using run
      C10_invoice_replaced_by_value_only
        [of "order1\<lparr>invoice_file := Some ''https://files.example/inv1.pdf''\<rparr>"
          "\<lparr>discount_price_in = Given 5000, advance_paid_in = Omitted,
            invoice_file_in = Null, full_payment_date_in = Omitted\<rparr>" 20001
          db1 sam "''sam-seller''" "''O1''" db1 order1]
    by simp
qed

text \<open>The seller of an order with an invoice sends the empty string as the invoice:
  the update stores it, and the view answers with the order whose invoice is empty.\<close>

theorem C10_invoice_cleared_by_empty_string:
  "invoice_file
     (update (order1\<lparr>invoice_file := Some ''https://files.example/inv1.pdf''\<rparr>)
        \<lparr>discount_price_in = Omitted, advance_paid_in = Omitted,
         invoice_file_in = Given [], full_payment_date_in = Omitted\<rparr> 20001)
     = Some []
   \<and> seller_order_update
       (save db1 ''O1'' (order1\<lparr>invoice_file := Some ''https://files.example/inv1.pdf''\<rparr>))
       sam ''sam-seller'' ''O1''
       \<lparr>discount_price_in = Omitted, advance_paid_in = Omitted,
        invoice_file_in = Given [], full_payment_date_in = Omitted\<rparr> 20001
     = Inr (save db1 ''O1'' (order1\<lparr>invoice_file := Some []\<rparr>),
            order1\<lparr>invoice_file := Some []\<rparr>)"
  by (simp add: seller_order_update_def seller_update_get_object_def get_order_or_404_def
      get_user_by_slug_or_404_def seller_serializer_is_valid_def decimal_field_valid_def
      validate_def update_def dict_get_def apply_seller_update_def Let_def or_zero_def
      save_def db1_def order1_def sam_def bea_def eve_def)

section \<open>The buyer's transition\<close>

lemma buyer_order_update_Inr:
  assumes "buyer_order_update d u slug oid sd today = Inr (d', od')"
  shows "\<exists>od. orders d oid = Some od \<and> buyer od = uid u \<and>
           (status od = Pending \<or> status od = Accepted) \<and>
           (sd = Some ''cancelled'' \<or> sd = Some ''completed'') \<and>
           buyer_transition od sd today = Inr od' \<and> d' = save d oid od'"
  using assms
  by (auto simp add: buyer_order_update_def buyer_update_get_object_def get_order_or_404_def
      buyer_serializer_is_valid_def buyer_transition_def
      split: sum.splits option.splits if_splits)




section \<open>Rejecting or clamping a discount above the total\<close>

lemma validate_rejects:
  "discount_price_in data = Given dc \<Longrightarrow> dc > total_amount od \<Longrightarrow>
     validate u (Some od) data = Inl ValidationError"
  by (simp add: validate_def dict_get_def Let_def)

lemma is_valid_rejects:
  "discount_price_in data = Given dc \<Longrightarrow> dc > total_amount od \<Longrightarrow>
     seller_serializer_is_valid u (Some od) data = Inl ValidationError"
  by (simp add: seller_serializer_is_valid_def validate_rejects)

text \<open>
  C7. A payload whose discount exceeds the total of the order is refused with
  \<^verbatim>\<open>ValidationError\<close> by the serializer's \<^verbatim>\<open>validate\<close> and by its validation as a
  whole, whoever the requester is, so the seller's update view answers with
  \<^verbatim>\<open>ValidationError\<close> once it has fetched the order. The model method called with the
  same discount stores the total as the discount instead.
\<close>

theorem C7_reject_or_clamp:
  "(discount_price_in data = Given dc \<and> dc > total_amount od \<longrightarrow>
      validate u (Some od) data = Inl ValidationError \<and>
      seller_serializer_is_valid u (Some od) data = Inl ValidationError \<and>
      (seller_update_get_object d u slug oid = Inr od \<longrightarrow>
         seller_order_update d u slug oid data today = Inl ValidationError))
   \<and> (dc > total_amount od \<longrightarrow>
        discount_price (apply_seller_update od (Some dc) ap today) = total_amount od)"
proof -
  have "seller_order_update d u slug oid data today = Inl ValidationError"
    if "discount_price_in data = Given dc" "dc > total_amount od"
      "seller_update_get_object d u slug oid = Inr od"
    using that by (simp add: seller_order_update_def is_valid_rejects)
  moreover have "discount_price (apply_seller_update od (Some dc) ap today) = total_amount od"
    if "dc > total_amount od"
    using that by (simp add: apply_seller_update_discount)
  ultimately show ?thesis
    using validate_rejects [of data dc od u] is_valid_rejects [of data dc od u] by blast
qed

text \<open>A discount of 600.00 on the order of 500.00, sent by its seller.\<close>

theorem C7_reject_or_clamp_witness:
  "discount_price_in
      \<lparr>discount_price_in = Given 60000, advance_paid_in = Omitted,
       invoice_file_in = Omitted, full_payment_date_in = Omitted\<rparr> = Given 60000
   \<and> 60000 > total_amount order1
   \<and> seller_update_get_object db1 sam ''sam-seller'' ''O1'' = Inr order1
   \<and> seller_order_update db1 sam ''sam-seller'' ''O1''
        \<lparr>discount_price_in = Given 60000, advance_paid_in = Omitted,
         invoice_file_in = Omitted, full_payment_date_in = Omitted\<rparr> 20001
       = Inl ValidationError
   \<and> discount_price (apply_seller_update order1 (Some 60000) None 20001) = 50000"
proof -
  have fetched: "seller_update_get_object db1 sam ''sam-seller'' ''O1'' = Inr order1"
    by (simp add: seller_update_get_object_def get_order_or_404_def
        get_user_by_slug_or_404_def db1_def order1_def sam_def bea_def eve_def)
  have above: "60000 > total_amount order1"
    by (simp add: order1_def)
  show ?thesis
    using fetched above
      C7_reject_or_clamp
        [of "\<lparr>discount_price_in = Given 60000, advance_paid_in = Omitted,
              invoice_file_in = Omitted, full_payment_date_in = Omitted\<rparr>"
          60000 order1 sam db1 "''sam-seller''" "''O1''" 20001 None]
    by (simp add: order1_def)
qed

section \<open>Deleting or cancelling\<close>

lemma destroy_dispatch:
  assumes "get_user_by_slug_or_404 (users d) slug ''customer'' = Inr b"
    and "orders d oid = Some od" and "buyer od = uid b"
  shows "destroy d u slug oid =
     (if uid u = buyer od \<and> status od = Pending then
        Inr (save d oid (od\<lparr>status := Cancelled\<rparr>), OrderCancelled)
      else if uid u = seller od then
        Inr (d\<lparr>orders := (orders d)(oid := None)\<rparr>, OrderDeleted)
      else Inl ForbiddenError)"
  using assms
  by (auto simp add: destroy_def delete_get_object_def get_order_or_404_def)

text \<open>
  C9. For an order that the view finds (the slug of the address names the buyer of the
  stored order), the outcome is decided by the requester, the first case that applies
  winning: the buyer of a pending order gets the order cancelled, kept in the table,
  with the marker of cancellation; otherwise the seller gets the row deleted, whatever
  its status; otherwise the request is refused with \<^verbatim>\<open>ForbiddenError\<close>. So a
  seller who is not the buyer always deletes, a buyer who is not the seller is refused
  on an order that is not pending, and anyone else is refused.
\<close>

theorem C9_delete_or_cancel:
  assumes "get_user_by_slug_or_404 (users d) slug ''customer'' = Inr b"
    and "orders d oid = Some od" and "buyer od = uid b"
  shows "destroy d u slug oid =
     (if uid u = buyer od \<and> status od = Pending then
        Inr (save d oid (od\<lparr>status := Cancelled\<rparr>), OrderCancelled)
      else if uid u = seller od then
        Inr (d\<lparr>orders := (orders d)(oid := None)\<rparr>, OrderDeleted)
      else Inl ForbiddenError)
   \<and> (uid u = buyer od \<and> status od = Pending \<longrightarrow>
        (\<exists>d'. destroy d u slug oid = Inr (d', OrderCancelled) \<and>
              orders d' oid = Some (od\<lparr>status := Cancelled\<rparr>)))
   \<and> (uid u = seller od \<and> uid u \<noteq> buyer od \<longrightarrow>
        (\<exists>d'. destroy d u slug oid = Inr (d', OrderDeleted) \<and> orders d' oid = None))
   \<and> (uid u \<noteq> seller od \<and> uid u \<noteq> buyer od \<longrightarrow>
        destroy d u slug oid = Inl ForbiddenError)
   \<and> (uid u = buyer od \<and> uid u \<noteq> seller od \<and> status od \<noteq> Pending \<longrightarrow>
        destroy d u slug oid = Inl ForbiddenError)"
  using destroy_dispatch [OF assms, of u]
  by (simp add: save_def)

text \<open>The buyer cancels the pending order; the seller deletes the same order once it
  is completed; a third user is refused; the buyer is refused on the completed order.\<close>

theorem C9_delete_or_cancel_witness:
  "destroy db1 bea ''bea-buyer'' ''O1'' =
     Inr (save db1 ''O1'' (order1\<lparr>status := Cancelled\<rparr>), OrderCancelled)
   \<and> destroy (save db1 ''O1'' (order1\<lparr>status := Completed\<rparr>)) sam ''bea-buyer'' ''O1'' =
     Inr ((save db1 ''O1'' (order1\<lparr>status := Completed\<rparr>))
            \<lparr>orders := (orders (save db1 ''O1'' (order1\<lparr>status := Completed\<rparr>)))(''O1'' := None)\<rparr>,
          OrderDeleted)
   \<and> destroy db1 eve ''bea-buyer'' ''O1'' = Inl ForbiddenError
   \<and> destroy (save db1 ''O1'' (order1\<lparr>status := Completed\<rparr>)) bea ''bea-buyer'' ''O1'' =
     Inl ForbiddenError"
proof -
  have slug1: "get_user_by_slug_or_404 (users db1) ''bea-buyer'' ''customer'' = Inr bea"
    by (simp add: get_user_by_slug_or_404_def db1_def sam_def bea_def eve_def)
  have slug2: "get_user_by_slug_or_404
      (users (save db1 ''O1'' (order1\<lparr>status := Completed\<rparr>))) ''bea-buyer'' ''customer'' = Inr bea"
    by (simp add: get_user_by_slug_or_404_def save_def db1_def sam_def bea_def eve_def)
  have row1: "orders db1 ''O1'' = Some order1"
    by (simp add: db1_def)
  have row2: "orders (save db1 ''O1'' (order1\<lparr>status := Completed\<rparr>)) ''O1'' =
      Some (order1\<lparr>status := Completed\<rparr>)"
    by (simp add: save_def)
  have own1: "buyer order1 = uid bea"
    by (simp add: order1_def bea_def)
  have own2: "buyer (order1\<lparr>status := Completed\<rparr>) = uid bea"
    by (simp add: order1_def bea_def)
  show ?thesis
    using C9_delete_or_cancel [OF slug1 row1 own1, of bea]
      C9_delete_or_cancel [OF slug2 row2 own2, of sam]
      C9_delete_or_cancel [OF slug1 row1 own1, of eve]
      C9_delete_or_cancel [OF slug2 row2 own2, of bea]
    by (simp add: order1_def sam_def bea_def eve_def)
qed

section \<open>Terminal states\<close>

lemma apply_seller_update_status:
  "status (apply_seller_update od dp ap today) = status od"
  by (simp add: apply_seller_update_def Let_def stamp_if_unset_def split: option.splits)

lemma update_status: "status (update od data today) = status od"
  using update_as_apply [of od data today] by (auto simp add: apply_seller_update_status)

text \<open>The seller's financial update keeps the status; the buyer's update refuses a
  completed or cancelled order; a deletion request on such an order can only remove
  the row.\<close>

lemma seller_order_update_status:
  "seller_order_update d u slug oid data today = Inr (d', od') \<Longrightarrow>
     \<exists>od. orders d oid = Some od \<and> orders d' oid = Some od' \<and> status od' = status od"
  by (auto dest!: seller_order_update_Inr simp add: update_status save_def)

lemma buyer_order_update_terminal:
  "orders d oid = Some od \<Longrightarrow> status od = Completed \<or> status od = Cancelled \<Longrightarrow>
     buyer_order_update d u slug oid sd today \<noteq> Inr r"
  by (cases r) (auto dest!: buyer_order_update_Inr)

lemma destroy_terminal:
  "orders d oid = Some od \<Longrightarrow> status od = Completed \<or> status od = Cancelled \<Longrightarrow>
   destroy d u slug oid = Inr (d', out) \<Longrightarrow> out = OrderDeleted \<and> orders d' oid = None"
  by (auto simp add: destroy_def delete_get_object_def get_order_or_404_def
      split: sum.splits option.splits if_splits)

text \<open>
  C3. The view that accepts an order does not look at the status: the seller of a
  cancelled order, and of a completed order, who calls it gets the order back with
  the status accepted, stored in the table.
\<close>

theorem C3_accept_leaves_terminal_state:
  "accept_order_update (save db1 ''O1'' (order1\<lparr>status := Cancelled\<rparr>)) sam ''sam-seller'' ''O1'' =
     Inr (save db1 ''O1'' (order1\<lparr>seller_agreed := True, status := Accepted\<rparr>),
          order1\<lparr>seller_agreed := True, status := Accepted\<rparr>)
   \<and> accept_order_update (save db1 ''O1'' (order1\<lparr>status := Completed\<rparr>)) sam ''sam-seller'' ''O1'' =
     Inr (save db1 ''O1'' (order1\<lparr>seller_agreed := True, status := Accepted\<rparr>),
          order1\<lparr>seller_agreed := True, status := Accepted\<rparr>)
   \<and> status (order1\<lparr>seller_agreed := True, status := Accepted\<rparr>) = Accepted"
  by (simp add: accept_order_update_def get_order_or_404_def get_user_by_slug_or_404_def
      save_def Let_def db1_def order1_def sam_def bea_def eve_def)

section \<open>Creating an order\<close>

lemma process_selected_services_resolved:
  assumes "\<forall>t \<in> set ts. length (matching_details ds ev t) \<le> 1"
  shows "process_selected_services ds ev ts tot lines =
     Inr (tot + sum_list (map price (concat (map (matching_details ds ev) ts))),
          lines @ map snapshot (concat (map (matching_details ds ev) ts)))"
  using assms
proof (induction ts arbitrary: tot lines)
  case Nil
  then show ?case by simp
next
  case (Cons t ts)
  then show ?case
    by (cases "matching_details ds ev t") (auto split: list.splits)
qed

lemma resolved_length:
  assumes "\<forall>t \<in> set ts. length (matching_details ds ev t) \<le> 1"
  shows "length (concat (map (matching_details ds ev) ts)) =
     length (filter (\<lambda>t. matching_details ds ev t \<noteq> []) ts)"
  using assms
proof (induction ts)
  case Nil
  then show ?case by simp
next
  case (Cons t ts)
  then show ?case
    by (cases "matching_details ds ev t") auto
qed

lemma create_not_found:
  assumes "get_user_by_slug_or_404 (users d) slug ''customer'' = Inr b"
    and "uid u = uid b" and "validated data = Some flds"
    and "(case event_id_in data of None \<Rightarrow> None | Some e \<Rightarrow> events d e) = None"
  shows "create d u slug data nid = Inl NotFoundError"
  using assms by (simp add: create_def split: option.splits)

lemma create_resolved:
  assumes "get_user_by_slug_or_404 (users d) slug ''customer'' = Inr b"
    and "uid u = uid b" and "validated data = Some flds"
    and "event_id_in data = Some eid" and "events d eid = Some ev"
    and "\<forall>t \<in> set (selected_services_in flds).
           length (matching_details (service_details d) eid t) \<le> 1"
  shows "create d u slug data nid =
     (let resolved = concat (map (matching_details (service_details d) eid)
                                 (selected_services_in flds));
          od = new_order (event_seller ev) b eid flds (map snapshot resolved)
                 (sum_list (map price resolved))
      in Inr (save d nid od, od))"
  using assms
  by (simp add: create_def process_selected_services_resolved Let_def)

text \<open>
  For a request that reaches the event lookup (the slug names the requesting customer
  and the serializer accepts the payload), a missing event answers
  \<^verbatim>\<open>NotFoundError\<close>. With the event stored, and no requested service type matching
  several available rows of the event, the request succeeds: the new order is stored
  under the new identifier, its lines are the snapshots of the rows that the requested
  types resolve to, in the order requested, one line for each type that resolves and
  none for a type that does not, and its total is the sum of the prices of those rows.
  When no type resolves, the order has no line and the total 0.
\<close>

lemma create_resolves_requested_types:
  assumes "get_user_by_slug_or_404 (users d) slug ''customer'' = Inr b"
    and "uid u = uid b" and "validated data = Some flds"
  shows "((case event_id_in data of None \<Rightarrow> None | Some e \<Rightarrow> events d e) = None \<longrightarrow>
            create d u slug data nid = Inl NotFoundError)
   \<and> (event_id_in data = Some eid \<and> events d eid = Some ev \<and>
       (\<forall>t \<in> set (selected_services_in flds).
           length (matching_details (service_details d) eid t) \<le> 1) \<longrightarrow>
       (\<exists>od. create d u slug data nid = Inr (save d nid od, od) \<and>
          selected_services od =
            map snapshot (concat (map (matching_details (service_details d) eid)
                                      (selected_services_in flds))) \<and>
          length (selected_services od) =
            length (filter (\<lambda>t. matching_details (service_details d) eid t \<noteq> [])
                      (selected_services_in flds)) \<and>
          total_amount od =
            sum_list (map price (concat (map (matching_details (service_details d) eid)
                                             (selected_services_in flds)))) \<and>
          ((\<forall>t \<in> set (selected_services_in flds).
               matching_details (service_details d) eid t = []) \<longrightarrow>
             selected_services od = [] \<and> total_amount od = 0)))"
proof -
  let ?resolved = "concat (map (matching_details (service_details d) eid)
                               (selected_services_in flds))"
  let ?od = "new_order (event_seller ev) b eid flds (map snapshot ?resolved)
               (sum_list (map price ?resolved))"
  have missing: "(case event_id_in data of None \<Rightarrow> None | Some e \<Rightarrow> events d e) = None \<longrightarrow>
            create d u slug data nid = Inl NotFoundError"
    using create_not_found [OF assms] by blast
  have found: "\<exists>od. create d u slug data nid = Inr (save d nid od, od) \<and>
          selected_services od = map snapshot ?resolved \<and>
          length (selected_services od) =
            length (filter (\<lambda>t. matching_details (service_details d) eid t \<noteq> [])
                      (selected_services_in flds)) \<and>
          total_amount od = sum_list (map price ?resolved) \<and>
          ((\<forall>t \<in> set (selected_services_in flds).
               matching_details (service_details d) eid t = []) \<longrightarrow>
             selected_services od = [] \<and> total_amount od = 0)"
    if ev: "event_id_in data = Some eid" "events d eid = Some ev"
      and one: "\<forall>t \<in> set (selected_services_in flds).
           length (matching_details (service_details d) eid t) \<le> 1"
  proof -
    have run: "create d u slug data nid = Inr (save d nid ?od, ?od)"
      using create_resolved [OF assms ev one, of nid] by (simp add: Let_def)
    have lines: "selected_services ?od = map snapshot ?resolved"
      by (simp add: new_order_def)
    have count: "length (selected_services ?od) =
            length (filter (\<lambda>t. matching_details (service_details d) eid t \<noteq> [])
                      (selected_services_in flds))"
      using resolved_length [OF one] by (simp add: new_order_def)
    have tot: "total_amount ?od = sum_list (map price ?resolved)"
      by (simp add: new_order_def)
    have none: "(\<forall>t \<in> set (selected_services_in flds).
               matching_details (service_details d) eid t = []) \<longrightarrow>
             selected_services ?od = [] \<and> total_amount ?od = 0"
    proof
      assume "\<forall>t \<in> set (selected_services_in flds).
               matching_details (service_details d) eid t = []"
      then have "?resolved = []"
        by simp
      then show "selected_services ?od = [] \<and> total_amount ?od = 0"
        by (simp add: new_order_def del: concat_eq_Nil_conv)
    qed
    show ?thesis
      using run lines count tot none by blast
  qed
  show ?thesis
    using missing found by blast
qed

text \<open>The customer asks for catering and for a type that the event does not offer:
  one line, at the price of the catering, 300.00. The same request for an event that
  is not stored is answered with \<^verbatim>\<open>NotFoundError\<close>.\<close>

lemma create_catering_and_unknown_type:
  "(\<exists>od. create db1 bea ''bea-buyer''
             \<lparr>event_id_in = Some ''E1'',
              validated = Some \<lparr>event_date_in = 20100, event_time_in = 19,
                 location_in = ''Sylhet'',
                 selected_services_in = [''catering'', ''unknown_token'']\<rparr>\<rparr> ''O2''
           = Inr (save db1 ''O2'' od, od) \<and>
           selected_services od =
             [\<lparr>line_id = ''SV1'', line_name = ''Catering'', line_price = PyFloat 30000\<rparr>] \<and>
           length (selected_services od) = 1 \<and>
           total_amount od = 30000)
   \<and> create db1 bea ''bea-buyer''
        \<lparr>event_id_in = Some ''E9'',
         validated = Some \<lparr>event_date_in = 20100, event_time_in = 19,
            location_in = ''Sylhet'',
            selected_services_in = [''catering'', ''unknown_token'']\<rparr>\<rparr> ''O2''
       = Inl NotFoundError"
proof -
  have slug: "get_user_by_slug_or_404 (users db1) ''bea-buyer'' ''customer'' = Inr bea"
    by (simp add: get_user_by_slug_or_404_def db1_def sam_def bea_def eve_def)
  have cat: "matching_details (service_details db1) ''E1'' ''catering'' = [catering_detail]"
    by (simp add: matching_details_def db1_def catering_detail_def)
  have unk: "matching_details (service_details db1) ''E1'' ''unknown_token'' = []"
    by (simp add: matching_details_def db1_def catering_detail_def)
  have ev: "events db1 ''E1'' = Some \<lparr>event_seller = ''S1''\<rparr>" "events db1 ''E9'' = None"
    by (simp_all add: db1_def)
  have snap: "snapshot catering_detail =
      \<lparr>line_id = ''SV1'', line_name = ''Catering'', line_price = PyFloat 30000\<rparr>"
    by (simp add: snapshot_def catering_detail_def get_service_type_display_def
        SERVICE_CHOICES_def)
  have pr: "price catering_detail = 30000"
    by (simp add: catering_detail_def)
  have one: "\<forall>t \<in> set (selected_services_in
        \<lparr>event_date_in = 20100, event_time_in = 19, location_in = ''Sylhet'',
          selected_services_in = [''catering'', ''unknown_token'']\<rparr>).
      length (matching_details (service_details db1) ''E1'' t) \<le> 1"
    using cat unk by simp
  have made: "\<exists>od. create db1 bea ''bea-buyer''
             \<lparr>event_id_in = Some ''E1'',
              validated = Some \<lparr>event_date_in = 20100, event_time_in = 19,
                 location_in = ''Sylhet'',
                 selected_services_in = [''catering'', ''unknown_token'']\<rparr>\<rparr> ''O2''
           = Inr (save db1 ''O2'' od, od) \<and>
           selected_services od =
             [\<lparr>line_id = ''SV1'', line_name = ''Catering'', line_price = PyFloat 30000\<rparr>] \<and>
           length (selected_services od) = 1 \<and>
           total_amount od = 30000"
    using one ev(1) cat unk snap pr
      create_resolves_requested_types [OF slug, of bea
        "\<lparr>event_id_in = Some ''E1'',
          validated = Some \<lparr>event_date_in = 20100, event_time_in = 19,
             location_in = ''Sylhet'',
             selected_services_in = [''catering'', ''unknown_token'']\<rparr>\<rparr>"
        "\<lparr>event_date_in = 20100, event_time_in = 19, location_in = ''Sylhet'',
          selected_services_in = [''catering'', ''unknown_token'']\<rparr>"
        "''O2''" "''E1''" "\<lparr>event_seller = ''S1''\<rparr>"]
    by auto
  have refused: "create db1 bea ''bea-buyer''
        \<lparr>event_id_in = Some ''E9'',
         validated = Some \<lparr>event_date_in = 20100, event_time_in = 19,
            location_in = ''Sylhet'',
            selected_services_in = [''catering'', ''unknown_token'']\<rparr>\<rparr> ''O2''
       = Inl NotFoundError"
    by (simp add: create_def slug ev(2))
  show ?thesis
    using made refused by blast
qed

text \<open>
  C8. The loop over the requested types catches \<^verbatim>\<open>DoesNotExist\<close> only. When the
  event offers two available catering rows, for two services of the type catering, the
  lookup of the requested type catering finds both and raises
  \<^verbatim>\<open>MultipleObjectsReturned\<close>: the request for catering and for a type that the
  event does not offer, by the customer herself and for a stored event, creates no
  order.
\<close>

theorem C8_create_ambiguous_type_raises:
  "matching_details (service_details db2) ''E1'' ''catering'' =
     [catering_detail, catering_detail2]
   \<and> service_id catering_detail \<noteq> service_id catering_detail2
   \<and> matching_details (service_details db2) ''E1'' ''unknown_token'' = []
   \<and> events db2 ''E1'' = Some \<lparr>event_seller = ''S1''\<rparr>
   \<and> get_user_by_slug_or_404 (users db2) ''bea-buyer'' ''customer'' = Inr bea
   \<and> create db2 bea ''bea-buyer''
        \<lparr>event_id_in = Some ''E1'',
         validated = Some \<lparr>event_date_in = 20100, event_time_in = 19,
            location_in = ''Sylhet'',
            selected_services_in = [''catering'', ''unknown_token'']\<rparr>\<rparr> ''O2''
       = Inl MultipleObjectsReturned"
  by (simp add: create_def get_user_by_slug_or_404_def matching_details_def
      db2_def db1_def sam_def bea_def eve_def catering_detail_def catering_detail2_def)

text \<open>A new order of a catalogue without negative prices starts with a total that is
  not negative and no discount, so the discount of a new order does not exceed its
  total.\<close>

lemma matching_details_subset: "sd \<in> set (matching_details ds ev t) \<Longrightarrow> sd \<in> set ds"
  by (simp add: matching_details_def)

lemma process_total_nonneg:
  assumes "\<forall>sd \<in> set ds. 0 \<le> price sd"
  shows "0 \<le> tot \<Longrightarrow> process_selected_services ds ev ts tot lines = Inr (tot', lines')
           \<Longrightarrow> 0 \<le> tot'"
proof (induction ts arbitrary: tot lines)
  case Nil
  then show ?case by simp
next
  case (Cons t ts)
  show ?case
  proof (cases "matching_details ds ev t")
    case Nil
    with Cons show ?thesis by simp
  next
    case found: (Cons sd rest)
    then have "sd \<in> set ds"
      using matching_details_subset [of sd ds ev t] by simp
    then have "0 \<le> tot + price sd"
      using assms Cons.prems(1) by simp
    moreover have "process_selected_services ds ev ts (tot + price sd) (lines @ [snapshot sd])
        = Inr (tot', lines')"
      using Cons.prems(2) found by (cases rest) simp_all
    ultimately show ?thesis
      using Cons.IH by blast
  qed
qed

lemma create_new_order_state:
  assumes "\<forall>sd \<in> set (service_details d). 0 \<le> price sd"
    and "create d u slug data nid = Inr (d', od)"
  shows "discount_price od = 0 \<and> advance_paid od = 0 \<and> 0 \<le> total_amount od \<and>
         status od = Pending \<and> \<not> is_fully_paid od \<and> \<not> seller_agreed od"
  using assms process_total_nonneg [of "service_details d" 0]
  by (auto simp add: create_def new_order_def Let_def
      split: sum.splits option.splits if_splits prod.splits)

end
